theory Spec2Isabelle
  imports Complex_Main "HOL-Library.Char_ord" "HOL-Library.List_Lexorder"
begin

section \<open>Data model\<close>

text \<open>
  The dashboard script \<^verbatim>\<open>app.py\<close> reads two tables and never mutates them. A table is
  the list of its rows, in file order. A cell that the script treats as possibly missing
  (\<^verbatim>\<open>dropna\<close>, \<^verbatim>\<open>notnull\<close>, \<^verbatim>\<open>value_counts\<close>, \<^verbatim>\<open>groupby\<close>) is an \<open>option\<close>, with
  \<open>None\<close> for pandas' NaN. The other cells the model reads (\<^verbatim>\<open>id\<close>, \<^verbatim>\<open>season\<close>,
  \<^verbatim>\<open>result\<close>, \<^verbatim>\<open>result_margin\<close>, \<^verbatim>\<open>match_id\<close> and the two run columns) are taken as
  present in every row. Counts and sums are Python integers, hence \<open>int\<close>; the 64-bit
  range of the numeric columns is not modelled. The column \<^verbatim>\<open>id\<close> is \<open>id_col\<close> here.
\<close>

type_synonym cell = "string option"

record match_row =
  id_col :: int
  season :: int
  city :: cell
  venue :: string
  date :: string
  team1 :: cell
  team2 :: cell
  winner :: cell
  result :: string
  result_margin :: int
  player_of_match :: cell

record delivery_row =
  match_id :: int
  batter :: cell
  bowler :: cell
  batsman_runs :: int
  total_runs :: int
  dismissal_kind :: cell
  player_dismissed :: cell

section \<open>The dataframe primitives the script calls\<close>

text \<open>\<^verbatim>\<open>Series.dropna()\<close>: the non-missing cells, in order.\<close>

fun dropna :: "'a option list \<Rightarrow> 'a list" where
  "dropna [] = []"
| "dropna (None # cs) = dropna cs"
| "dropna (Some v # cs) = v # dropna cs"

text \<open>\<^verbatim>\<open>Series.unique()\<close>: each value once, in order of first appearance.\<close>

definition unique :: "'a list \<Rightarrow> 'a list" where
  "unique vs = rev (remdups (rev vs))"

text \<open>\<^verbatim>\<open>column == value\<close> on one cell: a missing cell equals nothing.\<close>

definition eq_cell :: "'a option \<Rightarrow> 'a \<Rightarrow> bool" where
  "eq_cell c v = (c = Some v)"

text \<open>\<^verbatim>\<open>column.notnull()\<close> and \<^verbatim>\<open>column.isin(values)\<close> on one cell.\<close>

definition notnull :: "'a option \<Rightarrow> bool" where
  "notnull c = (c \<noteq> None)"

definition isin :: "'a option \<Rightarrow> 'a list \<Rightarrow> bool" where
  "isin c vs = (case c of None \<Rightarrow> False | Some v \<Rightarrow> v \<in> set vs)"

text \<open>
  \<^verbatim>\<open>Series.sort_values(ascending=False)\<close> on a series of (index, value) pairs. The order of
  entries with equal values is the library's choice; the model keeps their given order, and
  no theorem below depends on it.
\<close>

definition sort_values_desc :: "('k \<times> int) list \<Rightarrow> ('k \<times> int) list" where
  "sort_values_desc s = sort_key (\<lambda>kv. - snd kv) s"

text \<open>
  \<^verbatim>\<open>Series.value_counts()\<close>: missing cells dropped, one entry per distinct value with the
  number of its occurrences, largest count first.
\<close>

definition value_counts :: "'a option list \<Rightarrow> ('a \<times> int) list" where
  "value_counts col =
     (let vs = dropna col
      in sort_values_desc (map (\<lambda>k. (k, int (count_list vs k))) (unique vs)))"

text \<open>
  \<^verbatim>\<open>df.groupby(key)[val].sum()\<close> on the (key, value) pairs of the rows: rows with a missing
  key dropped, one entry per key, keys ascending.
\<close>

definition groupby_sum :: "('k::linorder option \<times> int) list \<Rightarrow> ('k \<times> int) list" where
  "groupby_sum rows =
     map (\<lambda>k. (k, sum_list (map snd (filter (\<lambda>r. fst r = Some k) rows))))
       (sort (unique (dropna (map fst rows))))"

text \<open>\<^verbatim>\<open>.head(n)\<close> and \<^verbatim>\<open>Series.get(key, default)\<close>.\<close>

definition head :: "nat \<Rightarrow> 'a list \<Rightarrow> 'a list" where
  "head n s = take n s"

definition get :: "('k \<times> int) list \<Rightarrow> 'k \<Rightarrow> int \<Rightarrow> int" where
  "get s k d = (case map_of s k of None \<Rightarrow> d | Some v \<Rightarrow> v)"

subsection \<open>Binary floating point\<close>

text \<open>
  The strike rate is computed in IEEE binary64: \<^verbatim>\<open>runs\<close> is a numpy integer, so
  \<^verbatim>\<open>runs / balls\<close> and the product with 100 are numpy doubles, and \<^verbatim>\<open>round(x, 2)\<close> is
  numpy's, which multiplies by 100, rounds to the nearest integer and divides by 100. A
  double is modelled by the rational it denotes. \<open>fl\<close> rounds a rational to the nearest
  double, a tie to the even 53-bit mantissa; each arithmetic operation is the exact
  operation followed by \<open>fl\<close>. The exponent range is not modelled (no overflow to
  infinity, no subnormals): a strike rate stays far inside it. \<open>None\<close> stands for the
  non-finite result of a division by zero.
\<close>

text \<open>\<open>bit_length n\<close> is Python's \<^verbatim>\<open>n.bit_length()\<close> for \<open>n > 0\<close>.\<close>

function bit_length :: "int \<Rightarrow> int" where
  "bit_length n = (if n \<le> 0 then 0 else 1 + bit_length (n div 2))"
  by pat_completeness auto
termination
  by (relation "measure nat") auto

declare bit_length.simps [simp del]

definition pow2 :: "int \<Rightarrow> rat" where
  "pow2 e = (if 0 \<le> e then 2 ^ nat e else 1 / 2 ^ nat (- e))"

text \<open>
  \<open>rint\<close> is \<^verbatim>\<open>numpy.rint\<close>: the nearest integer, a half to the even one. \<open>ilog2 a\<close> is
  the exponent \<open>e\<close> with \<open>2 ^ e \<le> a < 2 ^ (e + 1)\<close>, for \<open>a > 0\<close>.
\<close>

definition rint :: "rat \<Rightarrow> int" where
  "rint x =
     (let f = \<lfloor>x\<rfloor>; r = x - of_int f
      in if r < 1 / 2 then f
         else if 1 / 2 < r then f + 1
         else if even f then f else f + 1)"

definition ilog2 :: "rat \<Rightarrow> int" where
  "ilog2 a =
     (let (p, q) = quotient_of a;
          c = bit_length p - bit_length q
      in if pow2 c \<le> a then c else c - 1)"

definition fl :: "rat \<Rightarrow> rat" where
  "fl x =
     (if x = 0 then 0
      else let ulp = pow2 (ilog2 \<bar>x\<bar> - 52)
           in sgn x * of_int (rint (\<bar>x\<bar> / ulp)) * ulp)"

text \<open>
  \<^verbatim>\<open>a / b\<close> on integers (both converted to double first), \<^verbatim>\<open>x * y\<close> on doubles, and
  \<^verbatim>\<open>round(x, 2)\<close> on a numpy double.
\<close>

definition true_divide :: "int \<Rightarrow> int \<Rightarrow> rat option" where
  "true_divide a b =
     (if b = 0 then None else Some (fl (fl (of_int a) / fl (of_int b))))"

definition multiply :: "rat \<Rightarrow> rat \<Rightarrow> rat" where
  "multiply x y = fl (x * y)"

definition round2 :: "rat \<Rightarrow> rat" where
  "round2 x = fl (of_int (rint (multiply x 100)) / 100)"

section \<open>Sidebar filters\<close>

definition all_seasons :: "match_row list \<Rightarrow> int list" where
  "all_seasons matches_df = sort (unique (map season matches_df))"

definition season_matches :: "match_row list \<Rightarrow> int \<Rightarrow> match_row list" where
  "season_matches matches_df selected_season =
     filter (\<lambda>m. season m = selected_season) matches_df"

definition season_match_ids :: "match_row list \<Rightarrow> int \<Rightarrow> int list" where
  "season_match_ids matches_df selected_season =
     unique (map id_col (season_matches matches_df selected_season))"

definition season_deliveries ::
  "match_row list \<Rightarrow> delivery_row list \<Rightarrow> int \<Rightarrow> delivery_row list" where
  "season_deliveries matches_df deliveries_df selected_season =
     filter (\<lambda>d. match_id d \<in> set (season_match_ids matches_df selected_season))
       deliveries_df"

definition batters :: "delivery_row list \<Rightarrow> string list" where
  "batters sd = sort (unique (dropna (map batter sd)))"

definition bowlers :: "delivery_row list \<Rightarrow> string list" where
  "bowlers sd = sort (unique (dropna (map bowler sd)))"

definition teams :: "match_row list \<Rightarrow> string list" where
  "teams matches_df = sort (unique (dropna (map team1 matches_df)))"

section \<open>Aggregations\<close>

text \<open>Messages the script shows in place of a result.\<close>

datatype notice =
  No_data_for_this_matchup
| Choose_two_different_teams
| No_close_match_found

definition winner_count :: "match_row list \<Rightarrow> (string \<times> int) list" where
  "winner_count sm = value_counts (map winner sm)"

definition top_batsmen :: "nat \<Rightarrow> delivery_row list \<Rightarrow> (string \<times> int) list" where
  "top_batsmen n sd =
     head n (sort_values_desc (groupby_sum (map (\<lambda>d. (batter d, batsman_runs d)) sd)))"

definition wickets_df :: "delivery_row list \<Rightarrow> delivery_row list" where
  "wickets_df sd =
     filter (\<lambda>d. \<not> isin (dismissal_kind d)
                     [''run out'', ''retired hurt'', ''obstructing the field''])
       (filter (\<lambda>d. notnull (dismissal_kind d)) sd)"

definition top_bowlers :: "nat \<Rightarrow> delivery_row list \<Rightarrow> (string \<times> int) list" where
  "top_bowlers n sd = head n (value_counts (map bowler (wickets_df sd)))"

definition top_mom :: "match_row list \<Rightarrow> (string \<times> int) list" where
  "top_mom sm = head 5 (value_counts (map player_of_match sm))"

definition most_sixes :: "delivery_row list \<Rightarrow> (string \<times> int) list" where
  "most_sixes sd =
     head 10 (value_counts (map batter (filter (\<lambda>d. batsman_runs d = 6) sd)))"

definition dot_bowlers :: "delivery_row list \<Rightarrow> (string \<times> int) list" where
  "dot_bowlers sd =
     head 10 (value_counts (map bowler (filter (\<lambda>d. total_runs d = 0) sd)))"

subsection \<open>Player vs player\<close>

record pvp_stats =
  pvp_runs :: int
  pvp_balls :: int
  pvp_dismissals :: int
  pvp_strike_rate :: "rat option"
  pvp_fours :: int
  pvp_sixes :: int

definition pvp_df :: "delivery_row list \<Rightarrow> string \<Rightarrow> string \<Rightarrow> delivery_row list" where
  "pvp_df sd selected_batsman selected_bowler =
     filter (\<lambda>d. eq_cell (batter d) selected_batsman \<and> eq_cell (bowler d) selected_bowler) sd"

definition strike_rate :: "int \<Rightarrow> int \<Rightarrow> rat option" where
  "strike_rate runs balls =
     (if balls > 0
      then (case true_divide runs balls of
              None \<Rightarrow> None
            | Some q \<Rightarrow> Some (round2 (multiply q 100)))
      else Some 0)"

definition player_vs_player ::
  "delivery_row list \<Rightarrow> string \<Rightarrow> string \<Rightarrow> notice + pvp_stats" where
  "player_vs_player sd selected_batsman selected_bowler =
     (let pvp = pvp_df sd selected_batsman selected_bowler
      in if pvp = [] then Inl No_data_for_this_matchup
         else
           let runs = sum_list (map batsman_runs pvp);
               balls = int (length pvp);
               dismissals =
                 int (length (filter (\<lambda>d. eq_cell (player_dismissed d) selected_batsman) pvp));
               boundaries =
                 value_counts
                   (map (\<lambda>d. Some (batsman_runs d))
                      (filter (\<lambda>d. isin (Some (batsman_runs d)) [4, 6]) pvp))
           in Inr \<lparr>pvp_runs = runs, pvp_balls = balls, pvp_dismissals = dismissals,
                   pvp_strike_rate = strike_rate runs balls,
                   pvp_fours = get boundaries 4 0, pvp_sixes = get boundaries 6 0\<rparr>)"

subsection \<open>Head to head\<close>

record h2h_stats =
  h2h_total :: int
  h2h_t1_wins :: int
  h2h_t2_wins :: int
  h2h_ties :: int

definition h2h_df :: "match_row list \<Rightarrow> string \<Rightarrow> string \<Rightarrow> match_row list" where
  "h2h_df matches_df teamA teamB =
     filter (\<lambda>m. (eq_cell (team1 m) teamA \<and> eq_cell (team2 m) teamB) \<or>
                  (eq_cell (team1 m) teamB \<and> eq_cell (team2 m) teamA)) matches_df"

definition head_to_head :: "match_row list \<Rightarrow> string \<Rightarrow> string \<Rightarrow> notice + h2h_stats" where
  "head_to_head matches_df teamA teamB =
     (if teamA \<noteq> teamB
      then
        let h2h = h2h_df matches_df teamA teamB;
            total = int (length h2h);
            t1_wins = int (length (filter (\<lambda>m. eq_cell (winner m) teamA) h2h));
            t2_wins = int (length (filter (\<lambda>m. eq_cell (winner m) teamB) h2h));
            ties = total - t1_wins - t2_wins
        in Inr \<lparr>h2h_total = total, h2h_t1_wins = t1_wins, h2h_t2_wins = t2_wins,
                h2h_ties = ties\<rparr>
      else Inl Choose_two_different_teams)"

subsection \<open>Thriller of the season\<close>

definition thrillers :: "match_row list \<Rightarrow> match_row list" where
  "thrillers sm = sort_key result_margin (filter (\<lambda>m. result m = ''normal'') sm)"

definition thriller :: "match_row list \<Rightarrow> notice + match_row" where
  "thriller sm =
     (case thrillers sm of
        [] \<Rightarrow> Inl No_close_match_found
      | t # _ \<Rightarrow> Inr t)"

section \<open>The page\<close>

text \<open>
  One run of the script: the two tables and the sidebar selections go in, every
  aggregation shown on the page comes out. The season subsets are computed once and
  passed to the aggregations that use them; head to head and the team list read the
  whole match table. A selection is a value of the list its widget offers, so a string;
  the two selected teams are \<open>teamA\<close> and \<open>teamB\<close>, as \<open>team1\<close> and \<open>team2\<close> name the
  columns.
\<close>

record page =
  pg_teams :: "string list"
  pg_winner_count :: "(string \<times> int) list"
  pg_top_batsmen :: "(string \<times> int) list"
  pg_top_bowlers :: "(string \<times> int) list"
  pg_top_mom :: "(string \<times> int) list"
  pg_pvp :: "notice + pvp_stats"
  pg_h2h :: "notice + h2h_stats"
  pg_thriller :: "notice + match_row"
  pg_top_run_scorers :: "(string \<times> int) list"
  pg_most_sixes :: "(string \<times> int) list"
  pg_top_wickets :: "(string \<times> int) list"
  pg_dot_bowlers :: "(string \<times> int) list"

definition app ::
  "match_row list \<Rightarrow> delivery_row list \<Rightarrow> int \<Rightarrow> string \<Rightarrow> string \<Rightarrow> string \<Rightarrow> string
     \<Rightarrow> page" where
  "app matches_df deliveries_df selected_season selected_batsman selected_bowler teamA teamB =
     (let sm = season_matches matches_df selected_season;
          sd = season_deliveries matches_df deliveries_df selected_season
      in \<lparr>pg_teams = teams matches_df,
          pg_winner_count = winner_count sm,
          pg_top_batsmen = top_batsmen 5 sd,
          pg_top_bowlers = top_bowlers 5 sd,
          pg_top_mom = top_mom sm,
          pg_pvp = player_vs_player sd selected_batsman selected_bowler,
          pg_h2h = head_to_head matches_df teamA teamB,
          pg_thriller = thriller sm,
          pg_top_run_scorers = top_batsmen 10 sd,
          pg_most_sixes = most_sixes sd,
          pg_top_wickets = top_bowlers 10 sd,
          pg_dot_bowlers = dot_bowlers sd\<rparr>)"

section \<open>Sample rows\<close>

text \<open>Rows for the concrete scenarios below: a decided match and a legal delivery.\<close>

definition sample_match ::
  "int \<Rightarrow> int \<Rightarrow> string \<Rightarrow> string \<Rightarrow> string \<Rightarrow> int \<Rightarrow> match_row" where
  "sample_match i s a b w mg =
     \<lparr>id_col = i, season = s, city = None, venue = ''Wankhede Stadium'',
      date = ''2020-10-01'', team1 = Some a, team2 = Some b, winner = Some w,
      result = ''normal'', result_margin = mg, player_of_match = None\<rparr>"

definition sample_delivery ::
  "int \<Rightarrow> string \<Rightarrow> string \<Rightarrow> int \<Rightarrow> cell \<Rightarrow> delivery_row" where
  "sample_delivery i bat bowl r k =
     \<lparr>match_id = i, batter = Some bat, bowler = Some bowl, batsman_runs = r,
      total_runs = r, dismissal_kind = k,
      player_dismissed = (if k = None then None else Some bat)\<rparr>"

text \<open>
  Two tables for the scenarios: in each, every season, team, batter and bowler a scenario
  selects is one the sidebar offers.
\<close>

definition two_season_matches :: "match_row list" where
  "two_season_matches =
     [sample_match 1 2019 ''X'' ''Y'' ''X'' 3, sample_match 2 2020 ''Y'' ''X'' ''Y'' 7]"

definition two_season_deliveries :: "delivery_row list" where
  "two_season_deliveries =
     [sample_delivery 2 ''A'' ''B'' 1 None, sample_delivery 2 ''A'' ''B'' 4 None,
      sample_delivery 2 ''E'' ''F'' 6 None, sample_delivery 1 ''A'' ''B'' 6 None]"

section \<open>Facts about the primitives\<close>

lemma set_dropna: "set (dropna cs) = {v. Some v \<in> set cs}"
  by (induction cs rule: dropna.induct) auto

lemma count_list_dropna:
  "count_list (dropna cs) k = length (filter (\<lambda>c. c = Some k) cs)"
  by (induction cs rule: dropna.induct) auto

lemma set_unique: "set (unique vs) = set vs"
  by (simp add: unique_def)

lemma distinct_unique: "distinct (unique vs)"
  by (simp add: unique_def)

lemma set_sort_values_desc: "set (sort_values_desc s) = set s"
  by (simp add: sort_values_desc_def)

lemma distinct_keys_sort_values_desc:
  "distinct (map fst s) \<Longrightarrow> distinct (map fst (sort_values_desc s))"
  unfolding sort_values_desc_def
  by (metis distinct_map distinct_sort set_sort)

lemma map_of_sort_values_desc:
  "distinct (map fst s) \<Longrightarrow> map_of (sort_values_desc s) = map_of s"
  by (simp add: map_of_inject_set distinct_keys_sort_values_desc set_sort_values_desc)

lemma map_of_value_counts:
  "map_of (value_counts col) k =
     (if Some k \<in> set col then Some (int (length (filter (\<lambda>c. c = Some k) col))) else None)"
proof -
  let ?vs = "dropna col"
  let ?s = "map (\<lambda>k. (k, int (count_list ?vs k))) (unique ?vs)"
  have d: "distinct (map fst ?s)"
    by (simp add: distinct_unique comp_def)
  have "map_of (value_counts col) k = map_of ?s k"
    using map_of_sort_values_desc [OF d] by (simp add: value_counts_def Let_def)
  also have "\<dots> = (if k \<in> set (unique ?vs) then Some (int (count_list ?vs k)) else None)"
    by (simp add: map_of_map_restrict restrict_map_def)
  finally show ?thesis
    by (simp add: set_unique set_dropna count_list_dropna)
qed

lemma get_value_counts:
  "get (value_counts col) k 0 = int (length (filter (\<lambda>c. c = Some k) col))"
proof (cases "Some k \<in> set col")
  case True
  then show ?thesis by (simp add: get_def map_of_value_counts)
next
  case False
  then have "filter (\<lambda>c. c = Some k) col = []"
    by (auto simp: filter_empty_conv)
  with False show ?thesis by (simp add: get_def map_of_value_counts)
qed

lemma sorted_sort_values_desc:
  "sorted_wrt (\<lambda>a b. b \<le> a) (map snd (sort_values_desc s))"
proof -
  have "sorted (map (\<lambda>kv. - snd kv) (sort_values_desc s))"
    by (simp add: sort_values_desc_def)
  then show ?thesis
    by (simp add: sorted_wrt_map)
qed

lemma sorted_head:
  "sorted_wrt (\<lambda>a b. b \<le> a) (map snd s) \<Longrightarrow> sorted_wrt (\<lambda>a b. (b::int) \<le> a) (map snd (head n s))"
  using sorted_wrt_take [of "\<lambda>a b. b \<le> a" "map snd s" n]
  by (simp add: head_def take_map)

lemma length_head: "length (head n s) \<le> n"
  by (simp add: head_def)


lemma sorted_value_counts:
  "sorted_wrt (\<lambda>a b. b \<le> a) (map snd (value_counts col))"
  by (simp add: value_counts_def Let_def sorted_sort_values_desc)

lemma entry_value_counts:
  assumes "(k, c) \<in> set (value_counts col)"
  shows "c = int (length (filter (\<lambda>x. x = Some k) col))"
proof -
  let ?vs = "dropna col"
  have "(k, c) \<in> set (map (\<lambda>k. (k, int (count_list ?vs k))) (unique ?vs))"
    using assms by (simp add: value_counts_def Let_def set_sort_values_desc)
  then show ?thesis
    by (auto simp: count_list_dropna)
qed

lemma disjoint_filters_le:
  "(\<And>x. x \<in> set xs \<Longrightarrow> \<not> (P x \<and> Q x)) \<Longrightarrow>
   length (filter P xs) + length (filter Q xs) \<le> length xs"
  by (induction xs) auto

lemma hd_sort_key_min:
  assumes "xs \<noteq> []"
  shows "\<exists>t ts. sort_key f xs = t # ts \<and> t \<in> set xs \<and> (\<forall>x \<in> set xs. f t \<le> f x)"
proof -
  have ne: "sort_key f xs \<noteq> []"
    using assms by (metis length_sort length_0_conv)
  then obtain t ts where e: "sort_key f xs = t # ts"
    by (cases "sort_key f xs") auto
  have "sorted (map f (t # ts))"
    using sorted_sort_key [of f xs] e by simp
  moreover have "set (t # ts) = set xs"
    using set_sort [of f xs] e by simp
  ultimately show ?thesis using e by auto
qed

lemma count_split_filter:
  "int (length (filter W (filter P xs))) =
     int (length (filter W (filter P (filter Q xs)))) +
     int (length (filter W (filter P (filter (\<lambda>x. \<not> Q x) xs))))"
  by (induction xs) auto

lemma head_to_head_split:
  assumes "teamA \<noteq> teamB"
  shows "\<exists>h h_in h_out.
     head_to_head matches_df teamA teamB = Inr h \<and>
     head_to_head (filter Q matches_df) teamA teamB = Inr h_in \<and>
     head_to_head (filter (\<lambda>m. \<not> Q m) matches_df) teamA teamB = Inr h_out \<and>
     h2h_total h = h2h_total h_in + h2h_total h_out \<and>
     h2h_t1_wins h = h2h_t1_wins h_in + h2h_t1_wins h_out \<and>
     h2h_t2_wins h = h2h_t2_wins h_in + h2h_t2_wins h_out \<and>
     h2h_ties h = h2h_ties h_in + h2h_ties h_out"
proof -
  let ?P = "\<lambda>m. (eq_cell (team1 m) teamA \<and> eq_cell (team2 m) teamB) \<or>
                 (eq_cell (team1 m) teamB \<and> eq_cell (team2 m) teamA)"
  have t: "int (length (filter ?P matches_df)) =
      int (length (filter ?P (filter Q matches_df))) +
      int (length (filter ?P (filter (\<lambda>m. \<not> Q m) matches_df)))"
    using count_split_filter [of "\<lambda>_. True" ?P matches_df Q] by simp
  have w: "int (length (filter W (filter ?P matches_df))) =
      int (length (filter W (filter ?P (filter Q matches_df)))) +
      int (length (filter W (filter ?P (filter (\<lambda>m. \<not> Q m) matches_df))))" for W
    by (rule count_split_filter)
  show ?thesis
    using assms t w [of "\<lambda>m. eq_cell (winner m) teamA"] w [of "\<lambda>m. eq_cell (winner m) teamB"]
    unfolding head_to_head_def h2h_df_def Let_def
    by simp
qed

text \<open>
  The double nearest to one tenth, and the first integer that is not a double: \<open>fl\<close>
  gives the well-known values.
\<close>

lemma fl_one_tenth: "fl (1 / 10) = 3602879701896397 / 36028797018963968"
  by code_simp

lemma fl_two_to_53_plus_one: "fl 9007199254740993 = 9007199254740992"
  by code_simp

lemma boundary_count:
  assumes "v \<in> set vs"
  shows "get (value_counts (map (\<lambda>d. Some (f d)) (filter (\<lambda>d. isin (Some (f d)) vs) rows))) v 0 =
         int (length (filter (\<lambda>d. f d = v) rows))"
proof -
  have "filter (\<lambda>d. f d = v) (filter (\<lambda>d. f d \<in> set vs) rows) = filter (\<lambda>d. f d = v) rows"
    using assms by (induction rows) auto
  then show ?thesis
    by (simp add: get_value_counts filter_map comp_def isin_def)
qed

lemma season_deliveries_rows:
  "season_deliveries matches_df deliveries_df selected_season =
     filter (\<lambda>d. match_id d \<in>
                   set (map id_col (filter (\<lambda>m. season m = selected_season) matches_df)))
       deliveries_df"
  unfolding season_deliveries_def season_match_ids_def season_matches_def
  by (rule filter_cong) (auto simp: set_unique)

lemma player_vs_player_rows:
  "player_vs_player sd bat bowl =
     (let rows = filter (\<lambda>d. batter d = Some bat \<and> bowler d = Some bowl) sd
      in if rows = [] then Inl No_data_for_this_matchup
         else Inr \<lparr>pvp_runs = sum_list (map batsman_runs rows),
                   pvp_balls = int (length rows),
                   pvp_dismissals =
                     int (length (filter (\<lambda>d. player_dismissed d = Some bat) rows)),
                   pvp_strike_rate =
                     Some (round2 (multiply
                       (fl (fl (of_int (sum_list (map batsman_runs rows))) /
                            fl (of_int (int (length rows))))) 100)),
                   pvp_fours = int (length (filter (\<lambda>d. batsman_runs d = 4) rows)),
                   pvp_sixes = int (length (filter (\<lambda>d. batsman_runs d = 6) rows))\<rparr>)"
proof -
  let ?rows = "filter (\<lambda>d. batter d = Some bat \<and> bowler d = Some bowl) sd"
  have p: "pvp_df sd bat bowl = ?rows"
    by (simp add: pvp_df_def eq_cell_def)
  have f4: "get (value_counts (map (\<lambda>d. Some (batsman_runs d))
               (filter (\<lambda>d. isin (Some (batsman_runs d)) [4, 6]) ?rows))) 4 0 =
            int (length (filter (\<lambda>d. batsman_runs d = 4) ?rows))"
    by (rule boundary_count) simp
  have f6: "get (value_counts (map (\<lambda>d. Some (batsman_runs d))
               (filter (\<lambda>d. isin (Some (batsman_runs d)) [4, 6]) ?rows))) 6 0 =
            int (length (filter (\<lambda>d. batsman_runs d = 6) ?rows))"
    by (rule boundary_count) simp
  have sr: "strike_rate r (int (length ?rows)) =
            Some (round2 (multiply
              (fl (fl (of_int r) / fl (of_int (int (length ?rows))))) 100))"
    if "?rows \<noteq> []" for r
    using that by (simp add: strike_rate_def true_divide_def)
  show ?thesis
    unfolding player_vs_player_def p Let_def eq_cell_def f4 f6
    by (simp add: sr del: filter_filter)
qed

lemma credited_rows:
  "length (filter (\<lambda>c. c = Some b) (map bowler (wickets_df sd))) =
   length (filter (\<lambda>d. bowler d = Some b \<and> dismissal_kind d \<noteq> None \<and>
                       dismissal_kind d \<notin>
                         {Some ''run out'', Some ''retired hurt'', Some ''obstructing the field''})
             sd)"
  by (induction sd) (auto simp: wickets_df_def isin_def notnull_def split: option.splits)

lemma wickets_df_run_out:
  "dismissal_kind d = Some ''run out'' \<Longrightarrow> wickets_df (pre @ d # post) = wickets_df (pre @ post)"
  by (simp add: wickets_df_def isin_def notnull_def)

lemma head_value_counts:
  "length (head n (value_counts col)) \<le> n \<and>
   sorted_wrt (\<lambda>a b. b \<le> a) (map snd (head n (value_counts col)))"
  by (simp add: length_head sorted_head sorted_value_counts)

section \<open>Head to head\<close>

text \<open>
  C1, as claimed: the head-to-head aggregate counts only matches of the selected season.
  The script filters the whole match table \<^verbatim>\<open>matches_df\<close>, not \<^verbatim>\<open>season_matches\<close>. In
  the two-season table the sidebar offers season 2020 and the teams X and Y; with these
  selected, the only meeting of X and Y in 2020 is the match Y won, and the page reports
  two matches, one won by each.
\<close>

theorem head_to_head_other_season_counterexample:
  "2020 \<in> set (all_seasons two_season_matches) \<and>
   ''X'' \<in> set (teams two_season_matches) \<and>
   ''Y'' \<in> set (teams two_season_matches) \<and>
   ''A'' \<in> set (batters (season_deliveries two_season_matches two_season_deliveries 2020)) \<and>
   ''B'' \<in> set (bowlers (season_deliveries two_season_matches two_season_deliveries 2020)) \<and>
   h2h_df (season_matches two_season_matches 2020) ''X'' ''Y'' =
     [sample_match 2 2020 ''Y'' ''X'' ''Y'' 7] \<and>
   pg_h2h (app two_season_matches two_season_deliveries 2020 ''A'' ''B'' ''X'' ''Y'') =
     Inr \<lparr>h2h_total = 2, h2h_t1_wins = 1, h2h_t2_wins = 1, h2h_ties = 0\<rparr>"
  by (simp add: all_seasons_def teams_def batters_def bowlers_def season_deliveries_def
      season_match_ids_def season_matches_def unique_def app_def head_to_head_def h2h_df_def
      eq_cell_def two_season_matches_def two_season_deliveries_def sample_match_def
      sample_delivery_def Let_def less_eq_char_def less_char_def)

text \<open>
  C1, amended: for distinct teams the head-to-head aggregate on the page is computed over
  the whole match table, whatever season is selected: each of total, t1_wins, t2_wins and
  ties_or_other is the sum of its value over the matches of the selected season and its
  value over the matches of all other seasons.
\<close>

theorem head_to_head_all_seasons:
  assumes "teamA \<noteq> teamB"
  shows "\<exists>h h_in h_out.
     pg_h2h (app matches_df deliveries_df selected_season bat bowl teamA teamB) = Inr h \<and>
     head_to_head (season_matches matches_df selected_season) teamA teamB = Inr h_in \<and>
     head_to_head (filter (\<lambda>m. season m \<noteq> selected_season) matches_df) teamA teamB = Inr h_out \<and>
     h2h_total h = h2h_total h_in + h2h_total h_out \<and>
     h2h_t1_wins h = h2h_t1_wins h_in + h2h_t1_wins h_out \<and>
     h2h_t2_wins h = h2h_t2_wins h_in + h2h_t2_wins h_out \<and>
     h2h_ties h = h2h_ties h_in + h2h_ties h_out"
proof -
  have "pg_h2h (app matches_df deliveries_df selected_season bat bowl teamA teamB) =
        head_to_head matches_df teamA teamB"
    by (simp add: app_def Let_def)
  then show ?thesis
    using head_to_head_split [OF assms, of matches_df "\<lambda>m. season m = selected_season"]
    by (simp add: season_matches_def)
qed

theorem head_to_head_all_seasons_witness:
  "''X'' \<noteq> ''Y'' \<and>
   pg_h2h (app two_season_matches two_season_deliveries 2020 ''A'' ''B'' ''X'' ''Y'') =
     Inr \<lparr>h2h_total = 2, h2h_t1_wins = 1, h2h_t2_wins = 1, h2h_ties = 0\<rparr> \<and>
   head_to_head (season_matches two_season_matches 2020) ''X'' ''Y'' =
     Inr \<lparr>h2h_total = 1, h2h_t1_wins = 0, h2h_t2_wins = 1, h2h_ties = 0\<rparr> \<and>
   head_to_head (filter (\<lambda>m. season m \<noteq> 2020) two_season_matches) ''X'' ''Y'' =
     Inr \<lparr>h2h_total = 1, h2h_t1_wins = 1, h2h_t2_wins = 0, h2h_ties = 0\<rparr>"
  using head_to_head_all_seasons [of "''X''" "''Y''" two_season_matches
      two_season_deliveries 2020 "''A''" "''B''"]
  by (simp add: season_matches_def app_def head_to_head_def h2h_df_def eq_cell_def
      two_season_matches_def sample_match_def Let_def)

text \<open>
  C3: for distinct teams A and B the head-to-head selection is exactly the rows of the
  match table whose pair of teams is A and B in either order, total is the number of
  selected rows, and t1_wins + t2_wins + ties_or_other = total.
\<close>

theorem head_to_head_selection_total:
  assumes "teamA \<noteq> teamB"
  shows "h2h_df matches_df teamA teamB =
           filter (\<lambda>m. {team1 m, team2 m} = {Some teamA, Some teamB}) matches_df \<and>
         (\<exists>h. head_to_head matches_df teamA teamB = Inr h \<and>
              h2h_total h = int (length (h2h_df matches_df teamA teamB)) \<and>
              h2h_t1_wins h + h2h_t2_wins h + h2h_ties h = h2h_total h)"
proof
  show "h2h_df matches_df teamA teamB =
           filter (\<lambda>m. {team1 m, team2 m} = {Some teamA, Some teamB}) matches_df"
    unfolding h2h_df_def eq_cell_def
    by (rule filter_cong) (auto simp: doubleton_eq_iff)
  show "\<exists>h. head_to_head matches_df teamA teamB = Inr h \<and>
              h2h_total h = int (length (h2h_df matches_df teamA teamB)) \<and>
              h2h_t1_wins h + h2h_t2_wins h + h2h_ties h = h2h_total h"
    using assms by (simp add: head_to_head_def Let_def)
qed

theorem head_to_head_selection_total_witness:
  "''A'' \<noteq> ''B'' \<and>
   h2h_df [sample_match 1 2019 ''A'' ''B'' ''A'' 3, sample_match 2 2020 ''A'' ''C'' ''C'' 7,
           (sample_match 3 2021 ''B'' ''A'' ''B'' 0)\<lparr>winner := None, result := ''tie''\<rparr>]
     ''A'' ''B'' =
     [sample_match 1 2019 ''A'' ''B'' ''A'' 3,
      (sample_match 3 2021 ''B'' ''A'' ''B'' 0)\<lparr>winner := None, result := ''tie''\<rparr>] \<and>
   head_to_head
     [sample_match 1 2019 ''A'' ''B'' ''A'' 3, sample_match 2 2020 ''A'' ''C'' ''C'' 7,
      (sample_match 3 2021 ''B'' ''A'' ''B'' 0)\<lparr>winner := None, result := ''tie''\<rparr>]
     ''A'' ''B'' =
     Inr \<lparr>h2h_total = 2, h2h_t1_wins = 1, h2h_t2_wins = 0, h2h_ties = 1\<rparr>"
  using head_to_head_selection_total [of "''A''" "''B''"
      "[sample_match 1 2019 ''A'' ''B'' ''A'' 3, sample_match 2 2020 ''A'' ''C'' ''C'' 7,
        (sample_match 3 2021 ''B'' ''A'' ''B'' 0)\<lparr>winner := None, result := ''tie''\<rparr>]"]
  by (simp add: head_to_head_def h2h_df_def eq_cell_def sample_match_def Let_def)

text \<open>
  C4: when the same team is selected on both sides, head to head computes nothing: no
  totals and no win counts come out, only the warning to choose two different teams.
\<close>

theorem head_to_head_same_team_skipped:
  assumes "teamA = teamB"
  shows "head_to_head matches_df teamA teamB = Inl Choose_two_different_teams \<and>
         pg_h2h (app matches_df deliveries_df selected_season bat bowl teamA teamB) =
           Inl Choose_two_different_teams"
  using assms by (simp add: head_to_head_def app_def Let_def)

theorem head_to_head_same_team_skipped_witness:
  "''X'' = ''X'' \<and>
   pg_h2h (app [sample_match 1 2020 ''X'' ''Y'' ''X'' 4] [] 2020 ''P'' ''Q'' ''X'' ''X'') =
     Inl Choose_two_different_teams"
  using head_to_head_same_team_skipped [of "''X''" "''X''"
      "[sample_match 1 2020 ''X'' ''Y'' ''X'' 4]" "[]" 2020 "''P''" "''Q''"]
  by simp

text \<open>
  C10: for distinct teams A and B, t1_wins + t2_wins never exceeds total, so
  ties_or_other is never negative: a selected match counts for at most one of the two.
\<close>

theorem head_to_head_ties_nonneg:
  assumes "teamA \<noteq> teamB"
  shows "\<exists>h. head_to_head matches_df teamA teamB = Inr h \<and>
              h2h_t1_wins h + h2h_t2_wins h \<le> h2h_total h \<and> 0 \<le> h2h_ties h"
proof -
  let ?h2h = "h2h_df matches_df teamA teamB"
  have "length (filter (\<lambda>m. eq_cell (winner m) teamA) ?h2h) +
        length (filter (\<lambda>m. eq_cell (winner m) teamB) ?h2h) \<le> length ?h2h"
    by (rule disjoint_filters_le) (use assms in \<open>auto simp: eq_cell_def\<close>)
  then show ?thesis
    using assms by (simp add: head_to_head_def Let_def)
qed

theorem head_to_head_ties_nonneg_witness:
  "''MI'' \<noteq> ''CSK'' \<and>
   head_to_head [sample_match 1 2019 ''MI'' ''CSK'' ''MI'' 1,
                 sample_match 2 2019 ''CSK'' ''MI'' ''CSK'' 5,
                 sample_match 3 2020 ''CSK'' ''MI'' ''MI'' 9] ''MI'' ''CSK'' =
     Inr \<lparr>h2h_total = 3, h2h_t1_wins = 2, h2h_t2_wins = 1, h2h_ties = 0\<rparr>"
  using head_to_head_ties_nonneg [of "''MI''" "''CSK''"
      "[sample_match 1 2019 ''MI'' ''CSK'' ''MI'' 1,
        sample_match 2 2019 ''CSK'' ''MI'' ''CSK'' 5,
        sample_match 3 2020 ''CSK'' ''MI'' ''MI'' 9]"]
  by (simp add: head_to_head_def h2h_df_def eq_cell_def sample_match_def Let_def)

section \<open>Player vs player\<close>

text \<open>
  C5: the strike rate is round(runs / balls * 100, 2), in the script's double arithmetic,
  whenever balls > 0, and 0 when balls = 0; the division is never reached with a zero
  divisor, so a value always comes out. For balls = 4 and runs = 6 it is 150; for
  balls = 160 and runs = 23 the product is just below 14.375 and it is the double 14.37.
\<close>

theorem strike_rate_guarded:
  "(0 < balls \<longrightarrow>
      true_divide runs balls = Some (fl (fl (of_int runs) / fl (of_int balls))) \<and>
      strike_rate runs balls =
        Some (round2 (multiply (fl (fl (of_int runs) / fl (of_int balls))) 100))) \<and>
   (balls = 0 \<longrightarrow> strike_rate runs balls = Some 0) \<and>
   strike_rate runs balls \<noteq> None \<and>
   strike_rate 6 4 = Some 150 \<and>
   strike_rate 23 160 = Some (fl (1437 / 100))"
proof -
  have pos: "0 < balls \<longrightarrow>
      true_divide runs balls = Some (fl (fl (of_int runs) / fl (of_int balls))) \<and>
      strike_rate runs balls =
        Some (round2 (multiply (fl (fl (of_int runs) / fl (of_int balls))) 100))"
    by (simp add: strike_rate_def true_divide_def)
  have zero: "balls = 0 \<longrightarrow> strike_rate runs balls = Some 0"
    by (simp add: strike_rate_def)
  have defined: "strike_rate runs balls \<noteq> None"
    by (simp add: strike_rate_def true_divide_def)
  have exact: "strike_rate 6 4 = Some 150"
    by code_simp
  have rounded: "strike_rate 23 160 = Some (fl (1437 / 100))"
    by code_simp
  from pos zero defined exact rounded show ?thesis by blast
qed

theorem strike_rate_guarded_witness:
  "(0::int) < 4 \<and> true_divide 6 4 = Some (3 / 2) \<and> strike_rate 6 4 = Some 150 \<and>
   strike_rate 23 160 = Some (fl (1437 / 100)) \<and> fl (1437 / 100) \<noteq> 1438 / 100 \<and>
   strike_rate 6 0 = Some 0"
proof -
  have q: "fl (fl (of_int 6) / fl (of_int 4)) = 3 / 2"
    by code_simp
  have r: "fl (1437 / 100) \<noteq> 1438 / 100"
    by code_simp
  show ?thesis
    using strike_rate_guarded [of 4 6] strike_rate_guarded [of 0 6] q r
    by simp
qed

text \<open>
  C6: the player-vs-player statistics are computed over exactly the deliveries of the
  selected season (those whose match is a match of that season) with the selected batter
  and the selected bowler: runs is the sum of batsman_runs, balls the number of rows,
  dismissals the rows where the selected batter is the player dismissed, fours and sixes
  the rows with batsman_runs 4 and 6. With no such delivery the page reports that there is
  no data for the matchup. The strike rate is that of C5, in double arithmetic. For the
  deliveries (A, B, 1) and (A, B, 4) of season 2020 the result is runs 5, balls 2, strike
  rate 250, one four and no six.
\<close>

theorem player_vs_player_stats:
  "pg_pvp (app matches_df deliveries_df selected_season bat bowl teamA teamB) =
     (let rows = filter (\<lambda>d. batter d = Some bat \<and> bowler d = Some bowl)
                   (filter (\<lambda>d. match_id d \<in>
                        set (map id_col (filter (\<lambda>m. season m = selected_season) matches_df)))
                      deliveries_df)
      in if rows = [] then Inl No_data_for_this_matchup
         else Inr \<lparr>pvp_runs = sum_list (map batsman_runs rows),
                   pvp_balls = int (length rows),
                   pvp_dismissals =
                     int (length (filter (\<lambda>d. player_dismissed d = Some bat) rows)),
                   pvp_strike_rate =
                     Some (round2 (multiply
                       (fl (fl (of_int (sum_list (map batsman_runs rows))) /
                            fl (of_int (int (length rows))))) 100)),
                   pvp_fours = int (length (filter (\<lambda>d. batsman_runs d = 4) rows)),
                   pvp_sixes = int (length (filter (\<lambda>d. batsman_runs d = 6) rows))\<rparr>)"
proof -
  have "pg_pvp (app matches_df deliveries_df selected_season bat bowl teamA teamB) =
        player_vs_player (season_deliveries matches_df deliveries_df selected_season) bat bowl"
    by (simp add: app_def Let_def)
  then show ?thesis
    by (simp only: player_vs_player_rows season_deliveries_rows)
qed

theorem player_vs_player_stats_witness:
  "pg_pvp (app two_season_matches two_season_deliveries 2020 ''A'' ''B'' ''X'' ''Y'') =
     Inr \<lparr>pvp_runs = 5, pvp_balls = 2, pvp_dismissals = 0, pvp_strike_rate = Some 250,
          pvp_fours = 1, pvp_sixes = 0\<rparr> \<and>
   pg_pvp (app two_season_matches two_season_deliveries 2020 ''E'' ''B'' ''X'' ''Y'') =
     Inl No_data_for_this_matchup"
proof -
  have sr: "round2 (multiply (fl (fl 5 / fl 2)) 100) = 250"
    by code_simp
  show ?thesis
    using player_vs_player_stats [of two_season_matches two_season_deliveries 2020
        "''A''" "''B''" "''X''" "''Y''"]
      player_vs_player_stats [of two_season_matches two_season_deliveries 2020
        "''E''" "''B''" "''X''" "''Y''"]
    by (simp add: two_season_matches_def two_season_deliveries_def sample_match_def
        sample_delivery_def sr Let_def)
qed

section \<open>Wickets\<close>

text \<open>
  C2: the wicket count of a bowler is the number of deliveries by that bowler whose
  dismissal_kind is present and is none of run out, retired hurt and obstructing the
  field; every entry of the top wicket takers carries that number; a run-out delivery
  changes no bowler's count, wherever it stands in the table.
\<close>

theorem wicket_counts_exclude_uncredited:
  "get (value_counts (map bowler (wickets_df sd))) b 0 =
     int (length (filter (\<lambda>d. bowler d = Some b \<and> dismissal_kind d \<noteq> None \<and>
                       dismissal_kind d \<notin>
                         {Some ''run out'', Some ''retired hurt'', Some ''obstructing the field''})
             sd)) \<and>
   ((b, c) \<in> set (top_bowlers n sd) \<longrightarrow>
     c = int (length (filter (\<lambda>d. bowler d = Some b \<and> dismissal_kind d \<noteq> None \<and>
                       dismissal_kind d \<notin>
                         {Some ''run out'', Some ''retired hurt'', Some ''obstructing the field''})
             sd))) \<and>
   (dismissal_kind d = Some ''run out'' \<longrightarrow>
     top_bowlers n (pre @ d # post) = top_bowlers n (pre @ post))"
proof -
  have total: "get (value_counts (map bowler (wickets_df sd))) b 0 =
     int (length (filter (\<lambda>d. bowler d = Some b \<and> dismissal_kind d \<noteq> None \<and>
                       dismissal_kind d \<notin>
                         {Some ''run out'', Some ''retired hurt'', Some ''obstructing the field''})
             sd))"
    by (simp only: get_value_counts credited_rows)
  have shown: "c = int (length (filter (\<lambda>d. bowler d = Some b \<and> dismissal_kind d \<noteq> None \<and>
                       dismissal_kind d \<notin>
                         {Some ''run out'', Some ''retired hurt'', Some ''obstructing the field''})
             sd))"
    if "(b, c) \<in> set (top_bowlers n sd)"
  proof -
    from that have "(b, c) \<in> set (value_counts (map bowler (wickets_df sd)))"
      unfolding top_bowlers_def head_def by (rule in_set_takeD)
    then have "c = int (length (filter (\<lambda>x. x = Some b) (map bowler (wickets_df sd))))"
      by (rule entry_value_counts)
    then show ?thesis by (simp only: credited_rows)
  qed
  have run_out: "top_bowlers n (pre @ d # post) = top_bowlers n (pre @ post)"
    if "dismissal_kind d = Some ''run out''"
    using wickets_df_run_out [OF that] by (simp add: top_bowlers_def)
  from total shown run_out show ?thesis by blast
qed

theorem wicket_counts_exclude_uncredited_witness:
  "dismissal_kind (sample_delivery 1 ''A'' ''B'' 0 (Some ''run out'')) = Some ''run out'' \<and>
   top_bowlers 5 [sample_delivery 1 ''A'' ''B'' 0 (Some ''bowled''),
                  sample_delivery 1 ''A'' ''B'' 0 (Some ''run out''),
                  sample_delivery 1 ''C'' ''B'' 1 None,
                  sample_delivery 1 ''C'' ''D'' 0 (Some ''run out'')] = [(''B'', 1)] \<and>
   (''B'', 1) \<in> set (top_bowlers 5 [sample_delivery 1 ''A'' ''B'' 0 (Some ''bowled''),
                  sample_delivery 1 ''A'' ''B'' 0 (Some ''run out''),
                  sample_delivery 1 ''C'' ''B'' 1 None,
                  sample_delivery 1 ''C'' ''D'' 0 (Some ''run out'')])"
  using wicket_counts_exclude_uncredited [of
      "[sample_delivery 1 ''A'' ''B'' 0 (Some ''bowled''),
        sample_delivery 1 ''A'' ''B'' 0 (Some ''run out''),
        sample_delivery 1 ''C'' ''B'' 1 None,
        sample_delivery 1 ''C'' ''D'' 0 (Some ''run out'')]" "''B''" 1 5
      "sample_delivery 1 ''A'' ''B'' 0 (Some ''run out'')" "[]" "[]"]
  by (simp add: top_bowlers_def wickets_df_def isin_def notnull_def value_counts_def
      sort_values_desc_def unique_def head_def sample_delivery_def Let_def)

section \<open>Thriller of the season\<close>

text \<open>
  C7: among the matches of the selected season with result kind normal, the thriller is
  one with the least result_margin; with no such match the page reports that no close
  match was found. From the margins 5, 2 and 9 the match with margin 2 is chosen.
\<close>

theorem thriller_minimal_margin:
  "(filter (\<lambda>m. result m = ''normal'') (season_matches matches_df selected_season) = [] \<longrightarrow>
      pg_thriller (app matches_df deliveries_df selected_season bat bowl teamA teamB) =
        Inl No_close_match_found) \<and>
   (filter (\<lambda>m. result m = ''normal'') (season_matches matches_df selected_season) \<noteq> [] \<longrightarrow>
      (\<exists>t. pg_thriller (app matches_df deliveries_df selected_season bat bowl teamA teamB) =
              Inr t \<and>
           t \<in> set matches_df \<and> season t = selected_season \<and> result t = ''normal'' \<and>
           (\<forall>m \<in> set matches_df.
              season m = selected_season \<and> result m = ''normal'' \<longrightarrow>
              result_margin t \<le> result_margin m)))"
proof -
  let ?normal = "filter (\<lambda>m. result m = ''normal'') (season_matches matches_df selected_season)"
  have pg: "pg_thriller (app matches_df deliveries_df selected_season bat bowl teamA teamB) =
            thriller (season_matches matches_df selected_season)"
    by (simp add: app_def Let_def)
  have none: "thriller (season_matches matches_df selected_season) = Inl No_close_match_found"
    if "?normal = []"
    using that by (simp add: thriller_def thrillers_def)
  have some: "\<exists>t. thriller (season_matches matches_df selected_season) = Inr t \<and>
           t \<in> set matches_df \<and> season t = selected_season \<and> result t = ''normal'' \<and>
           (\<forall>m \<in> set matches_df.
              season m = selected_season \<and> result m = ''normal'' \<longrightarrow>
              result_margin t \<le> result_margin m)"
    if "?normal \<noteq> []"
  proof -
    from hd_sort_key_min [OF that, of result_margin]
    obtain t ts where srt: "sort_key result_margin ?normal = t # ts"
      and mem: "t \<in> set ?normal"
      and least: "\<forall>x \<in> set ?normal. result_margin t \<le> result_margin x"
      by blast
    have "thriller (season_matches matches_df selected_season) = Inr t"
      using srt by (simp add: thriller_def thrillers_def)
    moreover have "t \<in> set matches_df \<and> season t = selected_season \<and> result t = ''normal''"
      using mem by (simp add: season_matches_def)
    moreover have "\<forall>m \<in> set matches_df.
              season m = selected_season \<and> result m = ''normal'' \<longrightarrow>
              result_margin t \<le> result_margin m"
      using least by (simp add: season_matches_def)
    ultimately show ?thesis by blast
  qed
  from none some show ?thesis unfolding pg by blast
qed

theorem thriller_minimal_margin_witness:
  "filter (\<lambda>m. result m = ''normal'')
     (season_matches [sample_match 1 2020 ''A'' ''B'' ''A'' 5, sample_match 2 2020 ''C'' ''D'' ''D'' 2,
                      sample_match 3 2020 ''A'' ''C'' ''C'' 9, sample_match 4 2019 ''B'' ''D'' ''B'' 1]
        2020) \<noteq> [] \<and>
   pg_thriller (app [sample_match 1 2020 ''A'' ''B'' ''A'' 5, sample_match 2 2020 ''C'' ''D'' ''D'' 2,
                     sample_match 3 2020 ''A'' ''C'' ''C'' 9, sample_match 4 2019 ''B'' ''D'' ''B'' 1]
                  [] 2020 ''P'' ''Q'' ''A'' ''B'') =
     Inr (sample_match 2 2020 ''C'' ''D'' ''D'' 2) \<and>
   filter (\<lambda>m. result m = ''normal'') (season_matches [] 2020) = [] \<and>
   pg_thriller (app [] [] 2020 ''P'' ''Q'' ''A'' ''B'') = Inl No_close_match_found"
  using thriller_minimal_margin [of
      "[sample_match 1 2020 ''A'' ''B'' ''A'' 5, sample_match 2 2020 ''C'' ''D'' ''D'' 2,
        sample_match 3 2020 ''A'' ''C'' ''C'' 9, sample_match 4 2019 ''B'' ''D'' ''B'' 1]"
      2020 "[]" "''P''" "''Q''" "''A''" "''B''"]
    thriller_minimal_margin [of "[]" 2020 "[]" "''P''" "''Q''" "''A''" "''B''"]
  by (simp add: app_def thriller_def thrillers_def season_matches_def sample_match_def Let_def)

section \<open>Rankings\<close>

text \<open>
  C8: every top-N aggregation (run scorers, wicket takers, player-of-match awards, six
  hitters, dot-ball specialists) has at most N entries, and its entries are in
  non-increasing order of their aggregate value.
\<close>

theorem top_n_bounded_sorted:
  "length (top_batsmen n sd) \<le> n \<and>
   sorted_wrt (\<lambda>a b. b \<le> a) (map snd (top_batsmen n sd)) \<and>
   length (top_bowlers n sd) \<le> n \<and>
   sorted_wrt (\<lambda>a b. b \<le> a) (map snd (top_bowlers n sd)) \<and>
   length (top_mom sm) \<le> 5 \<and>
   sorted_wrt (\<lambda>a b. b \<le> a) (map snd (top_mom sm)) \<and>
   length (most_sixes sd) \<le> 10 \<and>
   sorted_wrt (\<lambda>a b. b \<le> a) (map snd (most_sixes sd)) \<and>
   length (dot_bowlers sd) \<le> 10 \<and>
   sorted_wrt (\<lambda>a b. b \<le> a) (map snd (dot_bowlers sd))"
proof -
  have "length (top_batsmen n sd) \<le> n \<and>
        sorted_wrt (\<lambda>a b. b \<le> a) (map snd (top_batsmen n sd))"
    unfolding top_batsmen_def by (simp add: length_head sorted_head sorted_sort_values_desc)
  moreover have "length (top_bowlers n sd) \<le> n \<and>
        sorted_wrt (\<lambda>a b. b \<le> a) (map snd (top_bowlers n sd))"
    unfolding top_bowlers_def by (rule head_value_counts)
  moreover have "length (top_mom sm) \<le> 5 \<and>
        sorted_wrt (\<lambda>a b. b \<le> a) (map snd (top_mom sm))"
    unfolding top_mom_def by (rule head_value_counts)
  moreover have "length (most_sixes sd) \<le> 10 \<and>
        sorted_wrt (\<lambda>a b. b \<le> a) (map snd (most_sixes sd))"
    unfolding most_sixes_def by (rule head_value_counts)
  moreover have "length (dot_bowlers sd) \<le> 10 \<and>
        sorted_wrt (\<lambda>a b. b \<le> a) (map snd (dot_bowlers sd))"
    unfolding dot_bowlers_def by (rule head_value_counts)
  ultimately show ?thesis by blast
qed

theorem top_n_bounded_sorted_witness:
  "top_batsmen 2 [sample_delivery 1 ''A'' ''X'' 1 None, sample_delivery 1 ''B'' ''X'' 6 None,
                  sample_delivery 1 ''C'' ''Y'' 4 None, sample_delivery 1 ''A'' ''Y'' 4 None] =
     [(''B'', 6), (''A'', 5)] \<and>
   length (top_batsmen 2 [sample_delivery 1 ''A'' ''X'' 1 None, sample_delivery 1 ''B'' ''X'' 6 None,
                  sample_delivery 1 ''C'' ''Y'' 4 None, sample_delivery 1 ''A'' ''Y'' 4 None]) \<le> 2"
  using top_n_bounded_sorted [of 2
      "[sample_delivery 1 ''A'' ''X'' 1 None, sample_delivery 1 ''B'' ''X'' 6 None,
        sample_delivery 1 ''C'' ''Y'' 4 None, sample_delivery 1 ''A'' ''Y'' 4 None]" "[]"]
  by (simp add: top_batsmen_def groupby_sum_def sort_values_desc_def unique_def head_def
      sample_delivery_def)

section \<open>Team list\<close>

text \<open>
  C9, as claimed: every team that takes part in some match of the table is in the team
  list. The script reads the \<^verbatim>\<open>team1\<close> column only: in a table whose single match is
  A against B, team B plays and the list is just A.
\<close>

theorem teams_team2_only_counterexample:
  "team2 (sample_match 1 2020 ''A'' ''B'' ''A'' 3) = Some ''B'' \<and>
   pg_teams (app [sample_match 1 2020 ''A'' ''B'' ''A'' 3] [] 2020 ''P'' ''Q'' ''A'' ''A'') =
     [''A'']"
  by (simp add: app_def teams_def unique_def sample_match_def Let_def)

text \<open>
  C9, amended: the team list is sorted and without repetition, and holds exactly the
  non-missing \<^verbatim>\<open>team1\<close> values of the whole match table, whatever season is selected:
  every team that is team1 of some match appears exactly once.
\<close>

theorem teams_sorted_distinct_team1:
  "sorted (pg_teams (app matches_df deliveries_df selected_season bat bowl teamA teamB)) \<and>
   distinct (pg_teams (app matches_df deliveries_df selected_season bat bowl teamA teamB)) \<and>
   set (pg_teams (app matches_df deliveries_df selected_season bat bowl teamA teamB)) =
     {t. Some t \<in> set (map team1 matches_df)}"
  by (simp add: app_def Let_def teams_def distinct_unique set_unique set_dropna)

theorem teams_sorted_distinct_team1_witness:
  "pg_teams (app [sample_match 1 2020 ''B'' ''A'' ''A'' 3, sample_match 2 2019 ''A'' ''C'' ''A'' 3,
                  sample_match 3 2019 ''B'' ''C'' ''C'' 1]
               [] 2020 ''P'' ''Q'' ''A'' ''B'') = [''A'', ''B'']"
  using teams_sorted_distinct_team1 [of
      "[sample_match 1 2020 ''B'' ''A'' ''A'' 3, sample_match 2 2019 ''A'' ''C'' ''A'' 3,
        sample_match 3 2019 ''B'' ''C'' ''C'' 1]" "[]" 2020 "''P''" "''Q''" "''A''" "''B''"]
  by (simp add: app_def teams_def unique_def sample_match_def Let_def less_eq_char_def less_char_def)

end
